theory Spec2Isabelle
  imports Main "HOL-Library.Sublist"
begin

section \<open>Python values\<close>

text \<open>
  A Python \<open>str\<close> is a sequence of Unicode code points; it is modelled as the list of
  its code points, so that \<open>length\<close> is Python's \<open>len\<close> and membership of a
  one-character string is membership of its code point. Text that only the program
  itself writes (the reason messages) is kept as a HOL \<open>string\<close>.
\<close>

type_synonym pystr = "nat list"

definition u :: "string \<Rightarrow> pystr" where
  "u s = map of_char s"

text \<open>
  The fuzzers hand arbitrary objects to the validators. The values that the tests and
  the specification name are \<open>None\<close>, booleans, integers, byte strings, lists and
  strings.
\<close>

datatype pyval =
    PyNone
  | PyBool bool
  | PyInt int
  | PyBytes "nat list"
  | PyList "pyval list"
  | PyStr pystr

fun is_str :: "pyval \<Rightarrow> bool" where
  "is_str (PyStr s) = True"
| "is_str v = False"

text \<open>
  The exceptions that the modelled operations raise. Each is an \<open>Exception\<close> for
  Python's \<open>except Exception\<close>; \<open>UnicodeEncodeError\<close> is kept apart from
  \<open>ValueError\<close>, of which it is a subclass.
\<close>

datatype pyexc =
    AttributeError
  | TypeError
  | ValueError
  | UnicodeEncodeError
  | RecursionError
  | OSError
  | RuntimeError

section \<open>ClientAuthenticationFuzzer\<close>

text \<open>\<open>self.max_password_length = 16\<close>, set in \<open>__init__\<close>.\<close>

definition max_password_length :: nat where
  "max_password_length = 16"

text \<open>The list \<open>control_chars\<close> of \<open>validate_client_input\<close>, in the source's order.\<close>

definition control_chars :: "nat list" where
  "control_chars =
     [0x01, 0x02, 0x03, 0x04, 0x05, 0x06, 0x07, 0x08,
      0x0e, 0x0f, 0x10, 0x11, 0x12, 0x13, 0x14, 0x15,
      0x16, 0x17, 0x18, 0x19, 0x1a, 0x1b, 0x1c, 0x1d, 0x1e, 0x1f]"

text \<open>Decimal rendering of a number inside an f-string.\<close>

fun str_nat :: "nat \<Rightarrow> string" where
  "str_nat n =
     (if n < 10 then [''0123456789'' ! n]
      else str_nat (n div 10) @ [''0123456789'' ! (n mod 10)])"

declare str_nat.simps [simp del]

text \<open>
  \<open>repr(char)\<close> for a one-character string whose code point is below \<open>0x20\<close> and is
  not tab, line feed or carriage return: Python prints the quote, \<open>\x\<close>, two lower-case
  hexadecimal digits and the quote. Every element of \<open>control_chars\<close> is of that
  kind.
\<close>

definition hex_digit :: "nat \<Rightarrow> char" where
  "hex_digit d = ''0123456789abcdef'' ! d"

definition repr_control :: "nat \<Rightarrow> string" where
  "repr_control c =
     [CHR 0x27, CHR 0x5C, CHR ''x'', hex_digit (c div 16), hex_digit (c mod 16), CHR 0x27]"

text \<open>
  The loop \<open>for char in control_chars: if char in password: return False, ...\<close>:
  the first element of the list that occurs in the password, if any.
\<close>

fun first_control_char :: "nat list \<Rightarrow> pystr \<Rightarrow> nat option" where
  "first_control_char [] password = None"
| "first_control_char (c # cs) password =
     (if c \<in> set password then Some c else first_control_char cs password)"

text \<open>
  \<open>validate_client_input\<close>. The checks are in the source's order: \<open>None\<close>, not a
  \<open>str\<close>, longer than the maximum, a null character, a listed control character.
  The function has no \<open>try\<close> block and none of its operations raises on the values
  it has reached, so the result is the pair itself.
\<close>

fun validate_client_input :: "pyval \<Rightarrow> bool \<times> string" where
  "validate_client_input PyNone = (False, ''Password cannot be None'')"
| "validate_client_input (PyStr password) =
     (if length password > max_password_length
      then (False, ''Password exceeds maximum length of '' @ str_nat max_password_length)
      else if 0 \<in> set password
      then (False, ''Null bytes not allowed in GUI input'')
      else (case first_control_char control_chars password of
              Some c \<Rightarrow> (False, ''Control character not allowed: '' @ repr_control c)
            | None \<Rightarrow> (True, ''Client validation passed'')))"
| "validate_client_input v = (False, ''Password must be string'')"

section \<open>The POSIX path library, as the two path checks use it\<close>

text \<open>
  \<open>FilePathRestrictionsFuzzer\<close> calls \<open>os.path\<close> and \<open>pathlib\<close>. The embedding is
  for a host where \<open>platform.system()\<close> is not \<open>"Windows"\<close>, so \<open>os.path\<close> is
  \<open>posixpath\<close> and \<open>pathlib.Path\<close> is \<open>PosixPath\<close>. The library functions are
  written out below as CPython defines them; what they read from the process, the
  interpreter and the file system is the record \<open>host\<close>.
\<close>

definition sep :: nat where
  "sep = 47"

definition backslash :: nat where
  "backslash = 92"

definition tilde :: nat where
  "tilde = 126"

definition curdir :: pystr where
  "curdir = [46]"

definition pardir :: pystr where
  "pardir = [46, 46]"

definition startswith :: "pystr \<Rightarrow> pystr \<Rightarrow> bool" where
  "startswith s p = prefix p s"

text \<open>\<open>s.replace(a, b)\<close> for one-character \<open>a\<close> and \<open>b\<close>.\<close>

definition replace_char :: "nat \<Rightarrow> nat \<Rightarrow> pystr \<Rightarrow> pystr" where
  "replace_char a b s = map (\<lambda>c. if c = a then b else c) s"

text \<open>
  \<open>s.split(c)\<close>: the pieces between the occurrences of \<open>c\<close>; there is always at least
  one piece, so the empty case of the inner \<open>case\<close> is never taken.
\<close>

fun split_on :: "nat \<Rightarrow> pystr \<Rightarrow> pystr list" where
  "split_on c [] = [[]]"
| "split_on c (x # xs) =
     (if x = c then [] # split_on c xs
      else (case split_on c xs of
              [] \<Rightarrow> [[x]]
            | w # ws \<Rightarrow> (x # w) # ws))"

text \<open>\<open>s.join(parts)\<close>.\<close>

fun join_on :: "pystr \<Rightarrow> pystr list \<Rightarrow> pystr" where
  "join_on s [] = []"
| "join_on s [x] = x"
| "join_on s (x # y # ys) = x @ s @ join_on s (y # ys)"

text \<open>\<open>s.rstrip(c)\<close> for a one-character \<open>c\<close>.\<close>

definition rstrip :: "nat \<Rightarrow> pystr \<Rightarrow> pystr" where
  "rstrip c s = rev (dropWhile (\<lambda>x. x = c) (rev s))"

text \<open>\<open>posixpath.isabs\<close> and \<open>posixpath.join\<close> (with two arguments).\<close>

definition isabs :: "pystr \<Rightarrow> bool" where
  "isabs s = startswith s [sep]"

definition path_join :: "pystr \<Rightarrow> pystr \<Rightarrow> pystr" where
  "path_join a b =
     (if startswith b [sep] then b
      else if a = [] \<or> last a = sep then a @ b
      else a @ [sep] @ b)"

text \<open>
  \<open>posixpath.normpath\<close>. The loop over the components keeps \<open>new_comps\<close>; exactly
  two leading slashes are kept, three or more become one.
\<close>

fun normpath_comps :: "nat \<Rightarrow> pystr list \<Rightarrow> pystr list \<Rightarrow> pystr list" where
  "normpath_comps initial_slashes [] new_comps = new_comps"
| "normpath_comps initial_slashes (c # comps) new_comps =
     (if c = [] \<or> c = curdir then normpath_comps initial_slashes comps new_comps
      else if c \<noteq> pardir \<or> (initial_slashes = 0 \<and> new_comps = [])
               \<or> (new_comps \<noteq> [] \<and> last new_comps = pardir)
      then normpath_comps initial_slashes comps (new_comps @ [c])
      else if new_comps \<noteq> [] then normpath_comps initial_slashes comps (butlast new_comps)
      else normpath_comps initial_slashes comps new_comps)"

definition normpath :: "pystr \<Rightarrow> pystr" where
  "normpath path =
     (if path = [] then curdir
      else
        let initial_slashes =
              (if startswith path [sep]
               then (if startswith path [sep, sep] \<and> \<not> startswith path [sep, sep, sep]
                     then 2 else 1)
               else 0);
            comps = normpath_comps initial_slashes (split_on sep path) [];
            p = replicate initial_slashes sep @ join_on [sep] comps
        in if p = [] then curdir else p)"

text \<open>
  What the program reads from outside itself.
  \<^item> The process: the \<open>HOME\<close> variable, the password database (the home directory of
    the current user and of each named user) and the working directory (\<open>None\<close> when
    \<open>os.getcwd()\<close> raises, as in a deleted directory).
  \<^item> The file system: its symbolic links, each absolute path of a link with its
    target; the characters that the file system encoding can write
    (\<open>fs_encodes\<close>: a name with another character makes \<open>os.lstat\<close> and
    \<open>pwd.getpwnam\<close> raise \<open>UnicodeEncodeError\<close>); and \<open>resolve_on_loop\<close>, what
    \<open>Path.resolve()\<close> gives for a path on which it meets a cycle of links. CPython
    3.10 to 3.12 then joins the rest of the path unresolved and asks the kernel:
    \<open>RuntimeError\<close> when \<open>stat\<close> reports a loop, and otherwise the joined path, in
    which a later \<open>..\<close> may have cancelled the looping link. That outcome depends on
    which files exist, so it is a parameter here.
  \<^item> The console: the characters beyond ASCII that \<open>sys.stdout\<close> can encode
    (\<open>stdout_encodes\<close>); \<open>print\<close> raises \<open>UnicodeEncodeError\<close> on any other. The
    stream is taken to be open.
  \<^item> The interpreter: the limit on the digits of an integer turned into text
    (\<open>sys.get_int_max_str_digits()\<close>, 0 for none), the code points beyond ASCII that
    \<open>str.isprintable\<close> accepts, and the number of nested \<open>repr\<close> calls left before
    \<open>RecursionError\<close>.
\<close>

record host =
  environ_HOME :: "pystr option"
  pw_uid_dir :: "pystr option"
  pw_nam_dir :: "(pystr \<times> pystr) list"
  getcwd :: "pystr option"
  symlinks :: "(pystr \<times> pystr) list"
  fs_encodes :: "nat \<Rightarrow> bool"
  resolve_on_loop :: "pystr \<Rightarrow> pyexc + pystr"
  stdout_encodes :: "nat \<Rightarrow> bool"
  int_max_str_digits :: nat
  isprintable :: "nat \<Rightarrow> bool"
  repr_depth :: nat

text \<open>\<open>posixpath.abspath\<close>.\<close>

definition abspath :: "host \<Rightarrow> pystr \<Rightarrow> pyexc + pystr" where
  "abspath h path =
     (if \<not> isabs path
      then (case getcwd h of
              None \<Rightarrow> Inl OSError
            | Some cwd \<Rightarrow> Inr (normpath (path_join cwd path)))
      else Inr (normpath path))"

text \<open>
  \<open>posixpath.expanduser\<close>. \<open>i\<close> is \<open>path.find('/', 1)\<close>, or \<open>len(path)\<close> when there
  is no slash. \<open>pwd.getpwnam\<close> encodes the name first (\<open>UnicodeEncodeError\<close>), then
  refuses a null character (\<open>ValueError\<close>), and raises \<open>KeyError\<close> for an unknown
  name, which \<open>expanduser\<close> catches: the path is then returned unchanged.
\<close>

definition expanduser :: "host \<Rightarrow> pystr \<Rightarrow> pyexc + pystr" where
  "expanduser h path =
     (if \<not> startswith path [tilde] then Inr path
      else
        let i = Suc (length (takeWhile (\<lambda>c. c \<noteq> sep) (tl path)));
            finish = (\<lambda>userhome.
               let r = rstrip sep userhome @ drop i path in if r = [] then [sep] else r)
        in if i = 1
           then (case environ_HOME h of
                   Some userhome \<Rightarrow> Inr (finish userhome)
                 | None \<Rightarrow> (case pw_uid_dir h of
                              None \<Rightarrow> Inr path
                            | Some userhome \<Rightarrow> Inr (finish userhome)))
           else let name = take (i - 1) (tl path)
                in if \<not> list_all (fs_encodes h) name then Inl UnicodeEncodeError
                   else if 0 \<in> set name then Inl ValueError
                   else (case map_of (pw_nam_dir h) name of
                           None \<Rightarrow> Inr path
                         | Some userhome \<Rightarrow> Inr (finish userhome)))"

text \<open>
  \<open>pathlib.Path(s).resolve()\<close>. A resolved path is kept as the list of its
  components; \<open>abs_of\<close> writes it back as a string. The walk takes the components of
  the input one by one: an empty component and \<open>.\<close> are skipped, \<open>..\<close> drops the last
  component (at the root it does nothing), and any other component is looked up with
  \<open>lstat\<close>, which raises \<open>UnicodeEncodeError\<close> on a name that the file system
  encoding cannot write and \<open>ValueError\<close> on a name with a null character. If the
  path reached is a symbolic link the components of its target are walked next, from
  the root for an absolute target and from the directory of the link otherwise. A
  path that is not a link is taken as it is, whether it exists or not.

  The walk is a partial function: it does not end exactly when the links met form a
  cycle, which is when CPython's \<open>realpath\<close> finds a link that it is already
  resolving. \<open>meets_loop\<close> names that case, and \<open>resolve\<close> then gives what the host
  says (\<open>resolve_on_loop\<close>).
\<close>

definition abs_of :: "pystr list \<Rightarrow> pystr" where
  "abs_of segs = (if segs = [] then [sep] else concat (map (\<lambda>s. sep # s) segs))"

partial_function (option) realpath_walk ::
  "host \<Rightarrow> pystr list \<Rightarrow> pystr list \<Rightarrow> (pyexc + pystr list) option" where
  "realpath_walk h path rest =
     (case rest of
        [] \<Rightarrow> Some (Inr path)
      | name # rest' \<Rightarrow>
          if name = [] \<or> name = curdir then realpath_walk h path rest'
          else if name = pardir then realpath_walk h (butlast path) rest'
          else if \<not> list_all (fs_encodes h) name then Some (Inl UnicodeEncodeError)
          else if 0 \<in> set name then Some (Inl ValueError)
          else (case map_of (symlinks h) (abs_of (path @ [name])) of
                  None \<Rightarrow> realpath_walk h (path @ [name]) rest'
                | Some target \<Rightarrow>
                    realpath_walk h (if isabs target then [] else path)
                      (split_on sep target @ rest')))"

declare realpath_walk.simps [code]

text \<open>
  A relative path is resolved from the working directory, which \<open>os.getcwd()\<close> gives
  as an absolute path; \<open>cwd_components\<close> are its components. When \<open>os.getcwd()\<close>
  raises, no relative name can be looked up: the names are still checked by
  \<open>lstat\<close>, and if none of them raises, the final \<open>abspath\<close> raises \<open>OSError\<close>.
\<close>

definition cwd_components :: "pystr \<Rightarrow> pystr list" where
  "cwd_components cwd = filter (\<lambda>c. c \<noteq> []) (split_on sep cwd)"

definition resolve_walk :: "host \<Rightarrow> pystr \<Rightarrow> (pyexc + pystr list) option" where
  "resolve_walk h s =
     (if isabs s then realpath_walk h [] (split_on sep s)
      else (case getcwd h of
              Some cwd \<Rightarrow> realpath_walk h (cwd_components cwd) (split_on sep s)
            | None \<Rightarrow>
                (case realpath_walk (h\<lparr>symlinks := []\<rparr>) [] (split_on sep s) of
                   Some (Inl e) \<Rightarrow> Some (Inl e)
                 | _ \<Rightarrow> Some (Inl OSError))))"

definition meets_loop :: "host \<Rightarrow> pystr \<Rightarrow> bool" where
  "meets_loop h s = (resolve_walk h s = None)"

definition resolve :: "host \<Rightarrow> pystr \<Rightarrow> pyexc + pystr" where
  "resolve h s =
     (case resolve_walk h s of
        None \<Rightarrow> resolve_on_loop h s
      | Some (Inl e) \<Rightarrow> Inl e
      | Some (Inr segs) \<Rightarrow> Inr (abs_of segs))"

section \<open>Text written to the console\<close>

text \<open>
  \<open>print(text)\<close>: every ASCII character can be written by the encodings CPython uses
  for a console; any other character must be one that \<open>stdout_encodes\<close> accepts.
\<close>

definition stdout_write :: "host \<Rightarrow> pystr \<Rightarrow> pyexc + unit" where
  "stdout_write h text =
     (if list_all (\<lambda>c. c < 128 \<or> stdout_encodes h c) text then Inr ()
      else Inl UnicodeEncodeError)"

fun print_lines :: "host \<Rightarrow> pystr list \<Rightarrow> pyexc + unit" where
  "print_lines h [] = Inr ()"
| "print_lines h (text # texts) =
     (case stdout_write h text of
        Inl e \<Rightarrow> Inl e
      | Inr _ \<Rightarrow> print_lines h texts)"

text \<open>
  \<open>str(n)\<close> for an integer: \<open>ValueError\<close> when the limit is set and the number has more
  digits than the limit allows.
\<close>

definition int_str :: "host \<Rightarrow> int \<Rightarrow> pyexc + pystr" where
  "int_str h n =
     (if int_max_str_digits h \<noteq> 0 \<and> 10 ^ int_max_str_digits h \<le> nat \<bar>n\<bar>
      then Inl ValueError
      else Inr ((if n < 0 then [45] else []) @ u (str_nat (nat \<bar>n\<bar>))))"

text \<open>
  \<open>repr\<close> of a \<open>str\<close> and of a \<open>bytes\<close> value: the quote is the double quote when the
  value holds a single quote and no double quote; the quote and the backslash are
  escaped, tab, line feed and carriage return have their letters, and what is not
  printable is written in hexadecimal.
\<close>

fun hex_fixed :: "nat \<Rightarrow> nat \<Rightarrow> pystr" where
  "hex_fixed 0 n = []"
| "hex_fixed (Suc w) n = hex_fixed w (n div 16) @ [of_char (hex_digit (n mod 16))]"

definition repr_quote :: "nat list \<Rightarrow> nat" where
  "repr_quote s = (if 39 \<in> set s \<and> 34 \<notin> set s then 34 else 39)"

definition repr_str_char :: "host \<Rightarrow> nat \<Rightarrow> nat \<Rightarrow> pystr" where
  "repr_str_char h quote c =
     (if c = quote \<or> c = 92 then [92, c]
      else if c = 9 then [92, 116]
      else if c = 10 then [92, 110]
      else if c = 13 then [92, 114]
      else if c < 32 \<or> c = 127 then [92, 120] @ hex_fixed 2 c
      else if c < 127 then [c]
      else if isprintable h c then [c]
      else if c \<le> 0xff then [92, 120] @ hex_fixed 2 c
      else if c \<le> 0xffff then [92, 117] @ hex_fixed 4 c
      else [92, 85] @ hex_fixed 8 c)"

definition repr_str :: "host \<Rightarrow> pystr \<Rightarrow> pystr" where
  "repr_str h s =
     [repr_quote s] @ concat (map (repr_str_char h (repr_quote s)) s) @ [repr_quote s]"

definition repr_bytes_char :: "nat \<Rightarrow> nat \<Rightarrow> pystr" where
  "repr_bytes_char quote c =
     (if c = quote \<or> c = 92 then [92, c]
      else if c = 9 then [92, 116]
      else if c = 10 then [92, 110]
      else if c = 13 then [92, 114]
      else if c < 32 \<or> c \<ge> 127 then [92, 120] @ hex_fixed 2 c
      else [c])"

definition repr_bytes :: "nat list \<Rightarrow> pystr" where
  "repr_bytes b =
     [98, repr_quote b] @ concat (map (repr_bytes_char (repr_quote b)) b) @ [repr_quote b]"

text \<open>
  \<open>repr(v)\<close>, with the number \<open>d\<close> of nested calls that are left, and \<open>format(v)\<close> as
  an f-string applies it: a \<open>str\<close> is written as it is, any other value by its
  \<open>repr\<close>.
\<close>

fun py_repr :: "host \<Rightarrow> nat \<Rightarrow> pyval \<Rightarrow> pyexc + pystr"
  and py_repr_elems :: "host \<Rightarrow> nat \<Rightarrow> pyval list \<Rightarrow> pyexc + pystr list" where
  "py_repr h d PyNone = (if d = 0 then Inl RecursionError else Inr (u ''None''))"
| "py_repr h d (PyBool b) =
     (if d = 0 then Inl RecursionError else Inr (if b then u ''True'' else u ''False''))"
| "py_repr h d (PyInt n) = (if d = 0 then Inl RecursionError else int_str h n)"
| "py_repr h d (PyBytes b) = (if d = 0 then Inl RecursionError else Inr (repr_bytes b))"
| "py_repr h d (PyStr s) = (if d = 0 then Inl RecursionError else Inr (repr_str h s))"
| "py_repr h d (PyList vs) =
     (if d = 0 then Inl RecursionError
      else (case py_repr_elems h (d - 1) vs of
              Inl e \<Rightarrow> Inl e
            | Inr parts \<Rightarrow> Inr ([91] @ join_on [44, 32] parts @ [93])))"
| "py_repr_elems h d [] = Inr []"
| "py_repr_elems h d (v # vs) =
     (case py_repr h d v of
        Inl e \<Rightarrow> Inl e
      | Inr part \<Rightarrow>
          (case py_repr_elems h d vs of
             Inl e \<Rightarrow> Inl e
           | Inr parts \<Rightarrow> Inr (part # parts)))"

definition py_format :: "host \<Rightarrow> pyval \<Rightarrow> pyexc + pystr" where
  "py_format h v = (case v of PyStr s \<Rightarrow> Inr s | _ \<Rightarrow> py_repr h (repr_depth h) v)"

text \<open>
  \<open>str(e)\<close> for the exceptions that reach the handler of \<open>is_path_allowed\<close>. The
  text of a \<open>UnicodeEncodeError\<close> names the codec, the position and the escaped
  character; it is ASCII like the others, and is shortened here.
\<close>

fun type_name :: "pyval \<Rightarrow> pystr" where
  "type_name PyNone = u ''NoneType''"
| "type_name (PyBool b) = u ''bool''"
| "type_name (PyInt n) = u ''int''"
| "type_name (PyBytes b) = u ''bytes''"
| "type_name (PyList vs) = u ''list''"
| "type_name (PyStr s) = u ''str''"

fun exc_message :: "pyexc \<Rightarrow> pyval \<Rightarrow> pystr" where
  "exc_message AttributeError v =
     [39] @ type_name v @ [39] @ u '' object has no attribute '' @ [39] @ u ''startswith'' @ [39]"
| "exc_message TypeError v =
     u ''startswith first arg must be bytes or a tuple of bytes, not str''"
| "exc_message ValueError v = u ''embedded null byte''"
| "exc_message UnicodeEncodeError v = u ''codec cannot encode character''"
| "exc_message RecursionError v = u ''maximum recursion depth exceeded''"
| "exc_message OSError v = u ''[Errno 2] No such file or directory''"
| "exc_message RuntimeError v = u ''Symlink loop''"

section \<open>FilePathRestrictionsFuzzer\<close>

text \<open>
  \<open>is_path_allowed\<close>, the reproduction of the C++ \<open>IsPathAllowed()\<close>. The object's
  \<open>allowed_root\<close> is a parameter (the tests replace it). Step 1 of the source is
  \<open>expanduser\<close> when \<open>file_path\<close> starts with \<open>~\<close> (\<open>expanded\<close>), step 2 is
  \<open>abspath\<close> when the result is not absolute; an absolute path is left exactly as it
  was given. \<open>cpp_absolute\<close> is the two steps together. Step 3 does the same
  \<open>abspath\<close> for the root, and step 4 is the comparison
  \<open>len(file_path) >= len(root_path) and file_path.startswith(root_path)\<close>, followed
  by the four \<open>print\<close> calls of the accepting branch or the one of the denying
  branch.

  \<open>is_path_allowed_try\<close> is the body of the \<open>try\<close> block. An exception is \<open>Inl\<close>,
  together with the value that the variable \<open>file_path\<close> holds at that moment, which
  the handler prints: a value that is not a \<open>str\<close> has no \<open>startswith\<close> method taking
  a \<open>str\<close> (\<open>AttributeError\<close>, or \<open>TypeError\<close> for \<open>bytes\<close>).

  \<open>exception_handler\<close> is the \<open>except Exception\<close> clause: it formats \<open>file_path\<close> and
  the exception into one line, prints it and returns \<open>False\<close>. It runs outside the
  \<open>try\<close> block, so what the formatting or the \<open>print\<close> raises reaches the caller:
  the result of \<open>is_path_allowed\<close> is a boolean (\<open>Inr\<close>) or that exception (\<open>Inl\<close>).
\<close>

definition expanded :: "host \<Rightarrow> pystr \<Rightarrow> pyexc + pystr" where
  "expanded h file_path =
     (if startswith file_path [tilde] then expanduser h file_path else Inr file_path)"

definition cpp_absolute :: "host \<Rightarrow> pystr \<Rightarrow> pyexc + pystr" where
  "cpp_absolute h file_path =
     (case expanded h file_path of
        Inl e \<Rightarrow> Inl e
      | Inr file_path1 \<Rightarrow>
          if \<not> isabs file_path1 then abspath h file_path1 else Inr file_path1)"

definition allowed_lines :: "pystr \<Rightarrow> pystr \<Rightarrow> pystr list" where
  "allowed_lines file_path root_path =
     [u ''[C++ VULNERABLE] Path allowed: '' @ file_path,
      u ''  Root: '' @ root_path,
      u ''  File: '' @ file_path,
      u ''  '' @ [0x1F6A8]
        @ u '' VULNERABILITY: Simple prefix match without boundary check!'']"

definition blocked_lines :: "pystr \<Rightarrow> pystr list" where
  "blocked_lines file_path = [u ''[C++ SECURE] Path blocked: '' @ file_path]"

definition is_path_allowed_try ::
  "host \<Rightarrow> pystr \<Rightarrow> pyval \<Rightarrow> (pyexc \<times> pyval) + bool" where
  "is_path_allowed_try h allowed_root v =
     (case v of
        PyStr file_path \<Rightarrow>
          (case cpp_absolute h file_path of
             Inl e \<Rightarrow>
               Inl (e, PyStr (case expanded h file_path of
                                Inl e1 \<Rightarrow> file_path
                              | Inr file_path1 \<Rightarrow> file_path1))
           | Inr file_path2 \<Rightarrow>
               (case (if \<not> isabs allowed_root then abspath h allowed_root
                      else Inr allowed_root) of
                  Inl e \<Rightarrow> Inl (e, PyStr file_path2)
                | Inr root_path \<Rightarrow>
                    if length file_path2 \<ge> length root_path
                       \<and> startswith file_path2 root_path
                    then (case print_lines h (allowed_lines file_path2 root_path) of
                            Inl e \<Rightarrow> Inl (e, PyStr file_path2)
                          | Inr _ \<Rightarrow> Inr True)
                    else (case print_lines h (blocked_lines file_path2) of
                            Inl e \<Rightarrow> Inl (e, PyStr file_path2)
                          | Inr _ \<Rightarrow> Inr False)))
      | PyBytes b \<Rightarrow> Inl (TypeError, v)
      | _ \<Rightarrow> Inl (AttributeError, v))"

definition exception_handler :: "host \<Rightarrow> pyexc \<Rightarrow> pyval \<Rightarrow> pyexc + bool" where
  "exception_handler h e file_path =
     (case py_format h file_path of
        Inl e' \<Rightarrow> Inl e'
      | Inr shown \<Rightarrow>
          (case stdout_write h
                  (u ''[C++ EXCEPTION] Exception caught for '' @ shown @ u '': ''
                     @ exc_message e file_path) of
             Inl e' \<Rightarrow> Inl e'
           | Inr _ \<Rightarrow> Inr False))"

definition is_path_allowed :: "host \<Rightarrow> pystr \<Rightarrow> pyval \<Rightarrow> pyexc + bool" where
  "is_path_allowed h allowed_root v =
     (case is_path_allowed_try h allowed_root v of
        Inr b \<Rightarrow> Inr b
      | Inl (e, file_path) \<Rightarrow> exception_handler h e file_path)"

text \<open>
  \<open>is_path_allowed_safe\<close>. Off Windows the backslashes of \<open>file_path\<close> are replaced by
  slashes (the root is not rewritten); both paths are resolved, and the candidate is
  accepted when it equals the root or starts with the root followed by a slash or a
  backslash. \<open>safe_canonical\<close> is the replacement followed by \<open>resolve\<close>. The
  handler \<open>except Exception: return False\<close> prints nothing, so the result is a
  boolean.
\<close>

definition safe_canonical :: "host \<Rightarrow> pystr \<Rightarrow> pyexc + pystr" where
  "safe_canonical h file_path = resolve h (replace_char backslash sep file_path)"

definition is_path_allowed_safe_try :: "host \<Rightarrow> pystr \<Rightarrow> pyval \<Rightarrow> pyexc + bool" where
  "is_path_allowed_safe_try h allowed_root v =
     (case v of
        PyStr file_path \<Rightarrow>
          (case safe_canonical h file_path of
             Inl e \<Rightarrow> Inl e
           | Inr abs_str \<Rightarrow>
               (case resolve h allowed_root of
                  Inl e \<Rightarrow> Inl e
                | Inr root_str \<Rightarrow>
                    Inr (abs_str = root_str
                         \<or> startswith abs_str (root_str @ [sep])
                         \<or> startswith abs_str (root_str @ [backslash]))))
      | PyBytes b \<Rightarrow> Inl TypeError
      | _ \<Rightarrow> Inl AttributeError)"

definition is_path_allowed_safe :: "host \<Rightarrow> pystr \<Rightarrow> pyval \<Rightarrow> bool" where
  "is_path_allowed_safe h allowed_root v =
     (case is_path_allowed_safe_try h allowed_root v of Inr b \<Rightarrow> b | Inl e \<Rightarrow> False)"

section \<open>Hosts\<close>

text \<open>
  A component is clean when it is a plain name: not empty, not \<open>.\<close> or \<open>..\<close>,
  written by the file system encoding, and without a null character, a slash or a
  backslash. A list of components is physical when all are clean and no path leading
  to one of them is a symbolic link. \<open>host_ok\<close> states what \<open>os.getcwd()\<close>
  guarantees (an absolute, physical path), for a file system whose names hold no
  backslash.
\<close>

definition clean_segment :: "host \<Rightarrow> pystr \<Rightarrow> bool" where
  "clean_segment h s =
     (s \<noteq> [] \<and> s \<noteq> curdir \<and> s \<noteq> pardir \<and> list_all (fs_encodes h) s
      \<and> 0 \<notin> set s \<and> sep \<notin> set s \<and> backslash \<notin> set s)"

definition physical :: "host \<Rightarrow> pystr list \<Rightarrow> bool" where
  "physical h segs =
     (list_all (clean_segment h) segs \<and>
      list_all (\<lambda>p. p = [] \<or> map_of (symlinks h) (abs_of p) = None) (prefixes segs))"


text \<open>\<open>self.allowed_root_linux\<close>, the root that \<open>__init__\<close> selects off Windows.\<close>

definition allowed_root_linux :: pystr where
  "allowed_root_linux = u ''/home/CMU/RawRecords''"

text \<open>
  The two encodings of a Linux host: strict UTF-8 writes every code point but the
  surrogates; the file system encoding (UTF-8 with \<open>surrogateescape\<close>) also writes
  the surrogates \<open>U+DC80\<close> to \<open>U+DCFF\<close>.
\<close>

definition utf8_strict :: "nat \<Rightarrow> bool" where
  "utf8_strict c = (c < 0xD800 \<or> 0xDFFF < c)"

definition utf8_surrogateescape :: "nat \<Rightarrow> bool" where
  "utf8_surrogateescape c = (c < 0xD800 \<or> 0xDFFF < c \<or> (0xDC80 \<le> c \<and> c \<le> 0xDCFF))"

text \<open>
  The code points beyond ASCII that \<open>str.isprintable\<close> accepts, for Latin-1 only:
  \<open>U+00A1\<close> to \<open>U+00FF\<close> without the soft hyphen. The table of the Unicode
  categories beyond Latin-1 is not written out.
\<close>

definition isprintable_latin1 :: "nat \<Rightarrow> bool" where
  "isprintable_latin1 c = (0xA1 \<le> c \<and> c \<le> 0xFF \<and> c \<noteq> 0xAD)"

text \<open>
  A host without symbolic links, with a UTF-8 console and the interpreter's default
  limits. It has no cycle of links, so \<open>resolve_on_loop\<close> is never asked.
\<close>

definition plain_host :: host where
  "plain_host =
     \<lparr>environ_HOME = Some (u ''/home/tester''), pw_uid_dir = Some (u ''/home/tester''),
      pw_nam_dir = [(u ''root'', u ''/root'')], getcwd = Some (u ''/home/tester/project''),
      symlinks = [], fs_encodes = utf8_surrogateescape,
      resolve_on_loop = (\<lambda>s. Inl RuntimeError), stdout_encodes = utf8_strict,
      int_max_str_digits = 4300, isprintable = isprintable_latin1, repr_depth = 1000\<rparr>"

text \<open>
  The file system that \<open>test_symlink_attacks\<close> builds: a directory \<open>allowed\<close>, a
  directory \<open>forbidden\<close> with a secret file, and inside \<open>allowed\<close> a symbolic link to
  that file.
\<close>

definition symlink_host :: host where
  "symlink_host =
     plain_host\<lparr>symlinks :=
       [(u ''/tmp/fuzz/allowed/report.txt'', u ''/tmp/fuzz/forbidden/secret.txt'')]\<rparr>"

text \<open>A file system with a symbolic link whose target is a name that holds a backslash.\<close>

definition backslash_host :: host where
  "backslash_host =
     plain_host\<lparr>symlinks := [(u ''/data/link'', u ''a'' @ [backslash] @ u ''b'')]\<rparr>"

text \<open>
  An integer of 5001 digits, more than the interpreter's default limit of 4300 digits
  for the conversion of an integer to text.
\<close>

definition oversized_int :: int where
  "oversized_int = 10 ^ 5000"

section \<open>Properties of the client-side validator\<close>

lemma first_control_char_None:
  "first_control_char cs p = None \<longleftrightarrow> set cs \<inter> set p = {}"
  by (induction cs) auto

lemma mem_control_chars:
  "c \<in> set control_chars \<longleftrightarrow> (1 \<le> c \<and> c \<le> 8) \<or> (14 \<le> c \<and> c \<le> 31)"
  unfolding control_chars_def by simp arith

lemma first_control_char_Some:
  "first_control_char cs p = Some c \<Longrightarrow> c \<in> set cs \<and> c \<in> set p"
  by (induction cs) (auto split: if_splits)

text \<open>
  Claim C9. \<open>validate_client_input\<close> returns a pair for every value, never an
  exception. Its first component is \<open>False\<close> exactly when the value is \<open>None\<close> or
  not a string, or is a string longer than \<open>max_password_length\<close> (16), or holding a
  null character, or holding a character of \<open>control_chars\<close>; every other string is
  accepted. The message is never empty.
\<close>

theorem validate_client_input_rejects_iff:
  "(fst (validate_client_input v) = False \<longleftrightarrow>
      (v = PyNone \<or> \<not> is_str v \<or>
       (\<exists>s. v = PyStr s \<and>
          (length s > 16 \<or> 0 \<in> set s \<or>
           (\<exists>c \<in> set s. c \<in> set control_chars))))) \<and>
   snd (validate_client_input v) \<noteq> []"
proof (cases v)
  case (PyStr s)
  then show ?thesis
    by (auto simp: first_control_char_None max_password_length_def
        split: option.splits dest: first_control_char_Some)
qed simp_all

theorem validate_client_input_rejects_iff_witness:
  "fst (validate_client_input (PyStr [112, 119, 3])) = False \<and>
   fst (validate_client_input (PyInt 123)) = False \<and>
   fst (validate_client_input (PyStr [112, 119])) = True"
  using validate_client_input_rejects_iff [of "PyStr [112, 119, 3]"]
    validate_client_input_rejects_iff [of "PyInt 123"]
    validate_client_input_rejects_iff [of "PyStr [112, 119]"]
  by (simp add: mem_control_chars del: validate_client_input.simps)

text \<open>
  Claim C10. A string of at most 16 characters without a null character, whose
  characters below \<open>0x20\<close> are all among tab, line feed, vertical tab, form feed and
  carriage return, is accepted: these five are not in \<open>control_chars\<close>.
\<close>

theorem whitespace_controls_accepted:
  assumes "length s \<le> 16" and "0 \<notin> set s"
    and "\<forall>c \<in> set s. c < 32 \<longrightarrow> c \<in> {9, 10, 11, 12, 13}"
  shows "validate_client_input (PyStr s) = (True, ''Client validation passed'')"
proof -
  have "set control_chars \<inter> set s = {}"
    using assms(3) by (fastforce simp: mem_control_chars)
  then have "first_control_char control_chars s = None"
    by (simp add: first_control_char_None)
  with assms(1,2) show ?thesis
    by (simp add: max_password_length_def)
qed

theorem whitespace_controls_accepted_witness:
  "validate_client_input (PyStr [112, 11, 9, 10, 12, 13]) = (True, ''Client validation passed'') \<and>
   validate_client_input (PyStr [11]) = (True, ''Client validation passed'')"
  using whitespace_controls_accepted [of "[112, 11, 9, 10, 12, 13]"]
    whitespace_controls_accepted [of "[11]"]
  by simp

section \<open>Evaluating the path functions\<close>

text \<open>
  The recursion equation of \<open>realpath_walk\<close>, split by the shape of the remaining
  components, so that the simplifier unfolds it only on a list that is given.
\<close>

lemma u_simps [simp]: "u [] = []" "u (c # cs) = of_char c # u cs"
  by (simp_all add: u_def)

lemma realpath_walk_Nil: "realpath_walk h path [] = Some (Inr path)"
  by (subst realpath_walk.simps) simp

lemma realpath_walk_Cons:
  "realpath_walk h path (name # rest') =
     (if name = [] \<or> name = curdir then realpath_walk h path rest'
      else if name = pardir then realpath_walk h (butlast path) rest'
      else if \<not> list_all (fs_encodes h) name then Some (Inl UnicodeEncodeError)
      else if 0 \<in> set name then Some (Inl ValueError)
      else (case map_of (symlinks h) (abs_of (path @ [name])) of
              None \<Rightarrow> realpath_walk h (path @ [name]) rest'
            | Some target \<Rightarrow>
                realpath_walk h (if isabs target then [] else path)
                  (split_on sep target @ rest')))"
  by (subst realpath_walk.simps) simp

lemmas path_defs =
  is_path_allowed_def is_path_allowed_try_def exception_handler_def
  cpp_absolute_def expanded_def allowed_lines_def blocked_lines_def
  stdout_write_def py_format_def
  is_path_allowed_safe_def is_path_allowed_safe_try_def safe_canonical_def
  resolve_def resolve_walk_def meets_loop_def
  cwd_components_def abs_of_def realpath_walk_Nil realpath_walk_Cons
  abspath_def expanduser_def normpath_def path_join_def rstrip_def
  isabs_def startswith_def replace_char_def
  sep_def tilde_def backslash_def curdir_def pardir_def

lemmas host_defs =
  plain_host_def symlink_host_def backslash_host_def allowed_root_linux_def
  utf8_strict_def utf8_surrogateescape_def

section \<open>Splitting and joining\<close>



lemma split_on_no_sep_id: "c \<notin> set s \<Longrightarrow> split_on c s = [s]"
  by (induction s) auto

lemma split_on_append_sep:
  "c \<notin> set s \<Longrightarrow> split_on c (s @ c # t) = s # split_on c t"
  by (induction s) auto

lemma split_on_concat_segments:
  "\<forall>s \<in> set segs. c \<notin> set s \<Longrightarrow> segs \<noteq> [] \<Longrightarrow>
   split_on c (concat (map (\<lambda>s. c # s) segs)) = [] # segs"
proof (induction segs)
  case Nil
  then show ?case by simp
next
  case (Cons s segs)
  show ?case
  proof (cases "segs = []")
    case True
    with Cons.prems show ?thesis by (simp add: split_on_no_sep_id)
  next
    case False
    with Cons have "split_on c (concat (map (\<lambda>s. c # s) segs)) = [] # segs" by simp
    moreover obtain s' segs' where "segs = s' # segs'" using False by (cases segs) auto
    ultimately show ?thesis
      using Cons.prems by (simp add: split_on_append_sep)
  qed
qed

lemma split_on_covers:
  "x \<in> set s \<Longrightarrow> x \<noteq> c \<Longrightarrow> \<exists>w \<in> set (split_on c s). x \<in> set w"
proof (induction s)
  case Nil
  then show ?case by simp
next
  case (Cons a s)
  show ?case
  proof (cases "split_on c s")
    case Nil
    with Cons show ?thesis by (auto split: if_splits)
  next
    case (Cons w ws)
    with Cons.prems Cons.IH show ?thesis
      by (auto split: if_splits)
  qed
qed

lemma replace_char_id: "a \<notin> set s \<Longrightarrow> replace_char a b s = s"
  by (induction s) (auto simp: replace_char_def)


lemma isabs_abs_of: "isabs (abs_of segs)"
  by (cases segs) (simp_all add: isabs_def abs_of_def startswith_def)

lemma set_abs_of: "set (abs_of segs) \<subseteq> insert sep (\<Union> (set ` set segs))"
  by (auto simp: abs_of_def)



section \<open>The resolver\<close>

text \<open>
  A walk that ends with a path, from a physical path, over components without slash
  or backslash, on a file system whose link targets hold no backslash, ends in a
  physical path; and a physical path resolves to itself.
\<close>

lemma physical_iff:
  "physical h segs \<longleftrightarrow>
     (\<forall>s \<in> set segs. clean_segment h s) \<and>
     (\<forall>p. prefix p segs \<longrightarrow> p \<noteq> [] \<longrightarrow> map_of (symlinks h) (abs_of p) = None)"
  by (auto simp: physical_def list_all_iff in_set_prefixes)

lemma physical_Nil: "physical h []"
  by (simp add: physical_iff)



lemma physical_append_left: "physical h (xs @ ys) \<Longrightarrow> physical h xs"
  by (auto simp: physical_iff)


lemma realpath_walk_of_physical:
  "physical h (pre @ segs) \<Longrightarrow> realpath_walk h pre segs = Some (Inr (pre @ segs))"
proof (induction segs arbitrary: pre)
  case Nil
  show ?case by (simp add: realpath_walk_Nil)
next
  case (Cons s segs)
  from Cons.prems have clean: "clean_segment h s"
    by (simp add: physical_iff)
  from Cons.prems have "map_of (symlinks h) (abs_of (pre @ [s])) = None"
    by (simp add: physical_iff)
  moreover from Cons.prems have "physical h ((pre @ [s]) @ segs)" by simp
  then have "realpath_walk h (pre @ [s]) segs = Some (Inr ((pre @ [s]) @ segs))"
    by (rule Cons.IH)
  ultimately show ?case
    using clean by (simp add: realpath_walk_Cons clean_segment_def)
qed

text \<open>A walk over a component with a null character, if it ends, ends with an exception.\<close>

lemma realpath_walk_null:
  assumes "realpath_walk h path rest = Some y"
  shows "\<exists>c \<in> set rest. 0 \<in> set c \<Longrightarrow> \<exists>e. y = Inl e"
  using assms
proof (induction rule: realpath_walk.raw_induct[rotated 1, consumes 1])
  case (1 walk h path rest y)
  note IH = 1(1) and body = 1(2) and nul = 1(3)
  show ?case
  proof (cases rest)
    case Nil
    with nul show ?thesis by simp
  next
    case (Cons name rest')
    show ?thesis
    proof (cases "0 \<in> set name")
      case True
      then have "name \<noteq> []" "name \<noteq> curdir" "name \<noteq> pardir"
        by (auto simp: curdir_def pardir_def)
      with body Cons True show ?thesis by (auto split: if_splits)
    next
      case False
      with nul Cons have r: "\<exists>c \<in> set rest'. 0 \<in> set c" by auto
      then have r': "\<exists>c \<in> set (t @ rest'). 0 \<in> set c" for t by auto
      from body Cons False show ?thesis
        by (auto split: if_splits option.splits intro: IH[OF _ r] IH[OF _ r'])
    qed
  qed
qed

lemma resolve_abs_of_physical:
  assumes "physical h segs"
  shows "safe_canonical h (abs_of segs) = Inr (abs_of segs)"
proof -
  have clean: "\<forall>s \<in> set segs. clean_segment h s"
    using assms by (simp add: physical_iff)
  then have "backslash \<notin> set (abs_of segs)"
    using set_abs_of[of segs] by (auto simp: clean_segment_def sep_def backslash_def)
  then have rep: "replace_char backslash sep (abs_of segs) = abs_of segs"
    by (rule replace_char_id)
  have walk: "realpath_walk h [] (split_on sep (abs_of segs)) = Some (Inr segs)"
  proof (cases "segs = []")
    case True
    then show ?thesis
      by (simp add: abs_of_def realpath_walk_Cons realpath_walk_Nil)
  next
    case False
    with clean have "split_on sep (abs_of segs) = [] # segs"
      by (simp add: abs_of_def split_on_concat_segments clean_segment_def)
    then show ?thesis
      using realpath_walk_of_physical[of h "[]" segs] assms
      by (simp add: realpath_walk_Cons)
  qed
  show ?thesis
    by (simp add: safe_canonical_def rep resolve_def resolve_walk_def isabs_abs_of walk)
qed


lemma resolve_of_physical:
  assumes "physical h segs"
  shows "resolve h (abs_of segs) = Inr (abs_of segs)"
proof -
  have "backslash \<notin> set (abs_of segs)"
    using assms set_abs_of[of segs]
    by (auto simp: physical_iff clean_segment_def sep_def backslash_def)
  then have "replace_char backslash sep (abs_of segs) = abs_of segs"
    by (rule replace_char_id)
  with resolve_abs_of_physical[OF assms] show ?thesis
    by (simp add: safe_canonical_def)
qed


lemma cpp_absolute_of_isabs: "isabs q \<Longrightarrow> cpp_absolute h q = Inr q"
  by (cases q)
    (auto simp: cpp_absolute_def expanded_def isabs_def startswith_def sep_def tilde_def)



section \<open>Integers written as text\<close>

lemma int_str_within_limit:
  assumes "nat \<bar>n\<bar> < 10 ^ k" and "k \<le> int_max_str_digits h"
  shows "int_str h n = Inr ((if n < 0 then [45] else []) @ u (str_nat (nat \<bar>n\<bar>)))"
proof -
  have "(10 :: nat) ^ k \<le> 10 ^ int_max_str_digits h"
    using assms(2) by (intro power_increasing) simp_all
  with assms(1) have "\<not> 10 ^ int_max_str_digits h \<le> nat \<bar>n\<bar>"
    by linarith
  then show ?thesis
    by (simp add: int_str_def)
qed

lemma oversized_int_digits: "10 ^ 4300 \<le> nat \<bar>oversized_int\<bar>"
proof -
  have a: "(4300 :: nat) \<le> 5000" and b: "(1 :: nat) \<le> 10" and c: "(0 :: int) \<le> 10"
    and d: "nat 10 = 10"
    by simp_all
  have "\<bar>oversized_int\<bar> = 10 ^ 5000"
    unfolding oversized_int_def by (rule abs_of_nonneg) (rule zero_le_power[OF c])
  then have "nat \<bar>oversized_int\<bar> = nat 10 ^ 5000"
    by (simp only: nat_power_eq[OF c])
  then have "nat \<bar>oversized_int\<bar> = 10 ^ 5000"
    by (simp only: d)
  then show ?thesis
    by (simp only: power_increasing[OF a b])
qed

section \<open>What each path check decides\<close>

text \<open>
  \<open>is_path_allowed\<close> accepts every string that continues an absolute root, whatever
  follows the root, when the console can write the path and the sign of the last
  line: the comparison is on the characters of the unprepared path.
\<close>

lemma print_lines_ok:
  "list_all (\<lambda>text. list_all (\<lambda>c. c < 128 \<or> stdout_encodes h c) text) texts
   \<Longrightarrow> print_lines h texts = Inr ()"
  by (induction texts) (simp_all add: stdout_write_def)

lemma is_path_allowed_raw_prefix:
  assumes "isabs allowed_root"
    and "list_all (\<lambda>c. c < 128 \<or> stdout_encodes h c) (allowed_root @ s)"
    and "stdout_encodes h 0x1F6A8"
  shows "is_path_allowed h allowed_root (PyStr (allowed_root @ s)) = Inr True"
proof -
  from assms(1) obtain r where r: "allowed_root = sep # r"
    by (cases allowed_root) (auto simp: isabs_def startswith_def)
  then have c: "cpp_absolute h (allowed_root @ s) = Inr (allowed_root @ s)"
    by (simp add: cpp_absolute_of_isabs isabs_def startswith_def)
  have "print_lines h (allowed_lines (allowed_root @ s) allowed_root) = Inr ()"
    using assms(2,3) by (intro print_lines_ok) (simp add: allowed_lines_def)
  with assms(1) c show ?thesis
    by (simp add: is_path_allowed_def is_path_allowed_try_def startswith_def)
qed

text \<open>
  \<open>is_path_allowed\<close> never accepts a value that is not a string, and what it
  accepts is a string whose prepared path starts with the root.
\<close>

lemma is_path_allowed_non_string_not_accepted:
  "\<not> is_str v \<Longrightarrow> is_path_allowed h allowed_root v \<noteq> Inr True"
  by (cases v)
    (auto simp: is_path_allowed_def is_path_allowed_try_def exception_handler_def
      split: sum.splits)

text \<open>
  \<open>is_path_allowed_safe\<close> denies every string with a null character on which the
  resolver meets no cycle of links: the walk cannot pass the component that holds it.
\<close>

lemma is_path_allowed_safe_null_denied:
  assumes "0 \<in> set file_path"
    and "\<not> meets_loop h (replace_char backslash sep file_path)"
  shows "\<not> is_path_allowed_safe h allowed_root (PyStr file_path)"
proof -
  let ?s = "replace_char backslash sep file_path"
  from assms(1) have "0 \<in> set ?s"
    by (force simp: replace_char_def backslash_def)
  then have "\<exists>c \<in> set (split_on sep ?s). 0 \<in> set c"
    by (rule split_on_covers) (simp add: sep_def)
  then have "realpath_walk h base (split_on sep ?s) \<noteq> Some (Inr segs)" for base segs
    using realpath_walk_null by fastforce
  then have "resolve_walk h ?s \<noteq> Some (Inr segs)" for segs
    by (auto simp: resolve_walk_def split: if_splits option.splits sum.splits)
  with assms(2) have "safe_canonical h file_path \<noteq> Inr q" for q
    by (auto simp: safe_canonical_def resolve_def meets_loop_def
        split: option.splits sum.splits)
  then show ?thesis
    by (auto simp: is_path_allowed_safe_def is_path_allowed_safe_try_def split: sum.splits)
qed

text \<open>
  \<open>is_path_allowed_safe\<close> accepts the root and what lies below it, for a root of at
  least one component and a path without links; below the file system root \<open>/\<close>
  it denies every path, because it looks for the root followed by a separator and
  \<open>/\<close> already ends with one.
\<close>

lemma safe_accepts_descendants:
  assumes "physical h (root_segs @ sub)" and "root_segs \<noteq> []"
  shows "is_path_allowed_safe h (abs_of root_segs) (PyStr (abs_of (root_segs @ sub)))"
proof -
  have c: "safe_canonical h (abs_of (root_segs @ sub)) = Inr (abs_of (root_segs @ sub))"
    using assms(1) by (rule resolve_abs_of_physical)
  have r: "resolve h (abs_of root_segs) = Inr (abs_of root_segs)"
    using physical_append_left[OF assms(1)] by (rule resolve_of_physical)
  have "abs_of (root_segs @ sub) = abs_of root_segs
        \<or> startswith (abs_of (root_segs @ sub)) (abs_of root_segs @ [sep])"
    using assms(2) by (cases sub) (auto simp: abs_of_def startswith_def)
  with c r show ?thesis
    by (auto simp: is_path_allowed_safe_def is_path_allowed_safe_try_def)
qed

lemma safe_denies_below_filesystem_root:
  assumes "physical h sub" and "sub \<noteq> []"
  shows "\<not> is_path_allowed_safe h [sep] (PyStr (abs_of sub))"
proof -
  have c: "safe_canonical h (abs_of sub) = Inr (abs_of sub)"
    using assms(1) by (rule resolve_abs_of_physical)
  have r: "resolve h [sep] = Inr [sep]"
    using resolve_of_physical[of h "[]"] by (simp add: physical_Nil abs_of_def)
  from assms obtain s ss where sub: "sub = s # ss" by (cases sub) auto
  with assms(1) have "clean_segment h s" by (simp add: physical_iff)
  then obtain x xs where s: "s = x # xs" and "x \<noteq> sep" "x \<noteq> backslash"
    by (cases s) (auto simp: clean_segment_def)
  with sub have "abs_of sub \<noteq> [sep]" "\<not> startswith (abs_of sub) ([sep] @ [sep])"
    "\<not> startswith (abs_of sub) ([sep] @ [backslash])"
    by (auto simp: abs_of_def startswith_def)
  with c r show ?thesis
    by (simp add: is_path_allowed_safe_def is_path_allowed_safe_try_def)
qed

section \<open>The claims about the path checks\<close>

text \<open>
  Claim C1 (prefix boundary). The claim is that a path made of the root and a suffix
  that does not start with a separator is denied by both checks. On the root
  \<open>/home/CMU/RawRecords\<close>, \<open>is_path_allowed\<close> accepts the sibling directory
  \<open>/home/CMU/RawRecords_fake\<close> and the file \<open>/home/CMU/RawRecords_backup/file.txt\<close>;
  \<open>is_path_allowed_safe\<close> denies both.
\<close>

theorem prefix_boundary_sibling_accepted:
  "is_path_allowed plain_host allowed_root_linux
     (PyStr (allowed_root_linux @ u ''_fake'')) = Inr True \<and>
   is_path_allowed plain_host allowed_root_linux
     (PyStr (allowed_root_linux @ u ''_backup/file.txt'')) = Inr True \<and>
   is_path_allowed_safe plain_host allowed_root_linux
     (PyStr (allowed_root_linux @ u ''_fake'')) = False \<and>
   is_path_allowed_safe plain_host allowed_root_linux
     (PyStr (allowed_root_linux @ u ''_backup/file.txt'')) = False"
  by (simp add: path_defs host_defs)

text \<open>
  Claim C2 (traversal). The claim is that the root followed by \<open>/../../etc/passwd\<close> is
  denied by both checks, the \<open>..\<close> components being resolved before the comparison.
  \<open>is_path_allowed\<close> leaves an absolute path as it is and accepts it;
  \<open>is_path_allowed_safe\<close> resolves it to \<open>/home/etc/passwd\<close> and denies it.
\<close>

theorem traversal_accepted_unresolved:
  "is_path_allowed plain_host allowed_root_linux
     (PyStr (allowed_root_linux @ u ''/../../etc/passwd'')) = Inr True \<and>
   safe_canonical plain_host (allowed_root_linux @ u ''/../../etc/passwd'')
     = Inr (u ''/home/etc/passwd'') \<and>
   is_path_allowed_safe plain_host allowed_root_linux
     (PyStr (allowed_root_linux @ u ''/../../etc/passwd'')) = False"
  by (simp add: path_defs host_defs)

text \<open>
  Claim C3 (null byte). The claim is that an input with a null character is denied by
  both checks. \<open>is_path_allowed\<close> accepts the root followed by \<open>/file.txt\<close>, a null
  character and \<open>.exe\<close>; \<open>is_path_allowed_safe\<close> denies it.
\<close>

theorem null_byte_accepted:
  "is_path_allowed plain_host allowed_root_linux
     (PyStr (allowed_root_linux @ u ''/file.txt'' @ [0] @ u ''.exe'')) = Inr True \<and>
   is_path_allowed_safe plain_host allowed_root_linux
     (PyStr (allowed_root_linux @ u ''/file.txt'' @ [0] @ u ''.exe'')) = False"
  by (simp add: path_defs host_defs)

text \<open>
  Claim C4 (symlink escape). The claim is that a symbolic link inside the root whose
  target is outside the root is denied. On the file system of the symlink test, with
  the root \<open>/tmp/fuzz/allowed\<close>, the link \<open>/tmp/fuzz/allowed/report.txt\<close> points to
  \<open>/tmp/fuzz/forbidden/secret.txt\<close>; \<open>is_path_allowed\<close> accepts the link, while
  \<open>is_path_allowed_safe\<close> resolves it and denies it.
\<close>

theorem symlink_escape_accepted:
  "map_of (symlinks symlink_host) (u ''/tmp/fuzz/allowed/report.txt'')
     = Some (u ''/tmp/fuzz/forbidden/secret.txt'') \<and>
   is_path_allowed symlink_host (u ''/tmp/fuzz/allowed'')
     (PyStr (u ''/tmp/fuzz/allowed/report.txt'')) = Inr True \<and>
   safe_canonical symlink_host (u ''/tmp/fuzz/allowed/report.txt'')
     = Inr (u ''/tmp/fuzz/forbidden/secret.txt'') \<and>
   is_path_allowed_safe symlink_host (u ''/tmp/fuzz/allowed'')
     (PyStr (u ''/tmp/fuzz/allowed/report.txt'')) = False"
  by (simp add: path_defs host_defs)

text \<open>
  Claim C5 (total and fail-closed). The claim is that \<open>is_path_allowed\<close> raises no
  exception to the caller for any input and denies every malformed input. The
  \<open>except\<close> clause formats the offending value and prints it, outside the \<open>try\<close>
  block. For the integer \<open>10 ** 5000\<close> the body raises \<open>AttributeError\<close>, the
  clause is entered, and the conversion of the integer to text raises \<open>ValueError\<close>
  to the caller. For the string of the one surrogate \<open>U+D800\<close> the \<open>print\<close> of
  the denying branch raises \<open>UnicodeEncodeError\<close>, the clause is entered, and its own
  \<open>print\<close> raises it again to the caller. \<open>None\<close>, \<open>123\<close> and the empty list
  are denied, and \<open>is_path_allowed_safe\<close>, whose clause prints nothing, denies the
  two inputs on which \<open>is_path_allowed\<close> raises.
\<close>

theorem exception_handler_raises_to_caller:
  "is_path_allowed_try plain_host allowed_root_linux (PyInt oversized_int)
     = Inl (AttributeError, PyInt oversized_int) \<and>
   is_path_allowed plain_host allowed_root_linux (PyInt oversized_int) = Inl ValueError \<and>
   is_path_allowed_try plain_host allowed_root_linux (PyStr [0xD800])
     = Inl (UnicodeEncodeError, PyStr (u ''/home/tester/project/'' @ [0xD800])) \<and>
   is_path_allowed plain_host allowed_root_linux (PyStr [0xD800]) = Inl UnicodeEncodeError \<and>
   is_path_allowed plain_host allowed_root_linux PyNone = Inr False \<and>
   is_path_allowed plain_host allowed_root_linux (PyInt 123) = Inr False \<and>
   is_path_allowed plain_host allowed_root_linux (PyList []) = Inr False \<and>
   is_path_allowed_safe plain_host allowed_root_linux (PyInt oversized_int) = False \<and>
   is_path_allowed_safe plain_host allowed_root_linux (PyStr [0xD800]) = False"
proof -
  have big: "is_path_allowed_try plain_host allowed_root_linux (PyInt oversized_int)
               = Inl (AttributeError, PyInt oversized_int)"
    by (simp add: is_path_allowed_try_def)
  have "int_str plain_host oversized_int = Inl ValueError"
    using oversized_int_digits by (simp add: int_str_def plain_host_def del: power_numeral)
  then have "exception_handler plain_host AttributeError (PyInt oversized_int) = Inl ValueError"
    by (simp add: exception_handler_def py_format_def plain_host_def)
  with big have big_raises:
    "is_path_allowed plain_host allowed_root_linux (PyInt oversized_int) = Inl ValueError"
    by (simp add: is_path_allowed_def)
  have sur: "is_path_allowed_try plain_host allowed_root_linux (PyStr [0xD800])
               = Inl (UnicodeEncodeError, PyStr (u ''/home/tester/project/'' @ [0xD800]))"
    by (simp add: path_defs host_defs)
  have "exception_handler plain_host UnicodeEncodeError
          (PyStr (u ''/home/tester/project/'' @ [0xD800])) = Inl UnicodeEncodeError"
    by (simp add: path_defs host_defs)
  with sur have sur_raises:
    "is_path_allowed plain_host allowed_root_linux (PyStr [0xD800]) = Inl UnicodeEncodeError"
    by (simp add: is_path_allowed_def)
  have none: "is_path_allowed plain_host allowed_root_linux PyNone = Inr False"
    by (simp add: path_defs host_defs)
  have "int_str plain_host 123 = Inr (u ''123'')"
    using int_str_within_limit[of 123 3 plain_host]
    by (simp add: plain_host_def str_nat.simps)
  then have "exception_handler plain_host AttributeError (PyInt 123) = Inr False"
    by (simp add: exception_handler_def py_format_def stdout_write_def plain_host_def)
  then have small: "is_path_allowed plain_host allowed_root_linux (PyInt 123) = Inr False"
    by (simp add: is_path_allowed_def is_path_allowed_try_def)
  have list: "is_path_allowed plain_host allowed_root_linux (PyList []) = Inr False"
    by (simp add: path_defs host_defs)
  have safe_big: "is_path_allowed_safe plain_host allowed_root_linux (PyInt oversized_int) = False"
    by (simp add: is_path_allowed_safe_def is_path_allowed_safe_try_def)
  have safe_sur: "is_path_allowed_safe plain_host allowed_root_linux (PyStr [0xD800]) = False"
    by (simp add: path_defs host_defs)
  from big big_raises sur sur_raises none small list safe_big safe_sur show ?thesis
    by (intro conjI)
qed

text \<open>
  Claim C6 (exact and subdirectory acceptance). The claim is that, for every root,
  both checks accept the root and the root followed by \<open>/sub/file.txt\<close>. With the file
  system root \<open>/\<close> as the allowed root, \<open>is_path_allowed_safe\<close> accepts \<open>/\<close> itself,
  resolves \<open>//sub/file.txt\<close> to \<open>/sub/file.txt\<close>, and denies it;
  \<open>is_path_allowed\<close> accepts it.
\<close>

theorem filesystem_root_descendant_denied:
  "is_path_allowed_safe plain_host [sep] (PyStr [sep]) = True \<and>
   safe_canonical plain_host ([sep] @ [sep] @ u ''sub/file.txt'') = Inr (u ''/sub/file.txt'') \<and>
   is_path_allowed_safe plain_host [sep] (PyStr ([sep] @ [sep] @ u ''sub/file.txt'')) = False \<and>
   is_path_allowed plain_host [sep] (PyStr ([sep] @ [sep] @ u ''sub/file.txt'')) = Inr True"
  by (simp add: path_defs host_defs)

text \<open>
  Claim C7 (separator and redundancy normalization). The claim is that, for every
  root, the root followed by \<open>//sub/./file.raw\<close> and the root followed by the
  same two names written with backslashes are accepted by both checks and are brought
  to the form of the root followed by \<open>/sub/file.raw\<close> before the comparison. \<open>is_path_allowed\<close> compares
  each of the three strings exactly as it was given; \<open>is_path_allowed_safe\<close> brings
  the three to one form, and with the allowed root \<open>/\<close> it denies
  \<open>///sub/./file.raw\<close>.
\<close>

theorem separators_not_normalized:
  "cpp_absolute plain_host (allowed_root_linux @ u ''//sub/./file.raw'')
     = Inr (allowed_root_linux @ u ''//sub/./file.raw'') \<and>
   cpp_absolute plain_host
       (allowed_root_linux @ [backslash] @ u ''sub'' @ [backslash] @ u ''file.raw'')
     = Inr (allowed_root_linux @ [backslash] @ u ''sub'' @ [backslash] @ u ''file.raw'') \<and>
   cpp_absolute plain_host (allowed_root_linux @ u ''/sub/file.raw'')
     = Inr (allowed_root_linux @ u ''/sub/file.raw'') \<and>
   safe_canonical plain_host (allowed_root_linux @ u ''//sub/./file.raw'')
     = Inr (allowed_root_linux @ u ''/sub/file.raw'') \<and>
   safe_canonical plain_host
       (allowed_root_linux @ [backslash] @ u ''sub'' @ [backslash] @ u ''file.raw'')
     = Inr (allowed_root_linux @ u ''/sub/file.raw'') \<and>
   is_path_allowed_safe plain_host [sep] (PyStr ([sep] @ u ''//sub/./file.raw'')) = False"
  by (simp add: path_defs host_defs)




end
